theory Spec2Isabelle
  imports Main "HOL-Library.Word" "HOL-Library.Sublist"
begin

unbundle bit_operations_syntax

section \<open>Data model of the chat console (src/app.py)\<close>

text \<open>
  Values that arrive in a JSON response body, as Python sees them after
  \<^verbatim>\<open>response.json()\<close>: \<^verbatim>\<open>None\<close>, booleans, integers, strings, lists and dicts
  (a dict as an association list in key order). Python text is a sequence of code
  points; it is held as the bytes of its UTF-8 form, and a lone surrogate, which the
  escapes of a JSON body can yield and for which UTF-8 has no form, as the three bytes
  \<^verbatim>\<open>ED A0..BF 80..BF\<close> that Python's \<^verbatim>\<open>surrogatepass\<close> handler writes for it.
  Non-integer numbers are not represented.
\<close>

datatype json =
    JNull
  | JBool bool
  | JInt int
  | JStr string
  | JList "json list"
  | JDict "(string \<times> json) list"

text \<open>
  A chat message is the dict appended to \<^verbatim>\<open>st.session_state.messages\<close>. The keys
  \<^verbatim>\<open>is_markdown\<close> and \<^verbatim>\<open>visualization\<close> are optional: \<open>None\<close> is an absent key.
\<close>

record message =
  role :: string
  content :: string
  is_markdown :: "bool option"
  visualization :: "string option"

text \<open>
  \<^verbatim>\<open>st.session_state\<close>: the message list, the last report (\<open>JNull\<close> is Python's
  \<^verbatim>\<open>None\<close>), the three flags of the dict \<^verbatim>\<open>active_agents\<close> in insertion order, and
  the two filter strings.
\<close>

record session =
  messages :: "message list"
  research_document :: json
  snowflake_agent :: bool
  rag_agent :: bool
  web_search_agent :: bool
  year :: string
  quarter :: string

text \<open>Lines 12-21 and 61-64: the state of a session whose keys are all still absent.\<close>

definition init_session :: session where
  "init_session =
     \<lparr>messages = [], research_document = JNull,
      snowflake_agent = False, rag_agent = False, web_search_agent = False,
      year = [], quarter = []\<rparr>"

section \<open>Sidebar\<close>

text \<open>
  Lines 83-85, the body of the \<^verbatim>\<open>Clear Conversation\<close> branch: both assignments, before
  the script is started again by \<^verbatim>\<open>st.rerun()\<close>.
\<close>

definition clear_session :: "session \<Rightarrow> session" where
  "clear_session s = s\<lparr>messages := [], research_document := JNull\<rparr>"

section \<open>Python primitives used by the script\<close>

text \<open>
  \<^verbatim>\<open>str(n)\<close> for an integer, as the f-strings of lines 213 and 217 format the
  status code: decimal digits, most significant first, with a minus sign below zero.
\<close>

definition digit_char :: "nat \<Rightarrow> char" where
  "digit_char d = ''0123456789'' ! (d mod 10)"

function str_nat :: "nat \<Rightarrow> string" where
  "str_nat n = (if n < 10 then [digit_char n] else str_nat (n div 10) @ [digit_char (n mod 10)])"
  by pat_completeness auto
termination
  by (relation "measure (\<lambda>n. n)") auto

definition str_int :: "int \<Rightarrow> string" where
  "str_int i = (if i < 0 then CHR ''-'' # str_nat (nat (- i)) else str_nat (nat i))"

text \<open>
  \<^verbatim>\<open>int(s)\<close> for a string (lines 164 and 169): an optional sign and decimal digits give
  the number, anything else raises \<^verbatim>\<open>ValueError\<close>, here \<open>Inl\<close> of the exception's
  text. Surrounding blanks and digit-group underscores, which Python also accepts, and
  the escaping done by \<^verbatim>\<open>repr\<close> in the exception's text are left out: the strings
  converted are options of the two selectors.
\<close>

definition is_digit :: "char \<Rightarrow> bool" where
  "is_digit c = (48 \<le> (of_char c :: nat) \<and> (of_char c :: nat) \<le> 57)"

definition digits_value :: "string \<Rightarrow> nat" where
  "digits_value ds = foldl (\<lambda>acc c. 10 * acc + ((of_char c :: nat) - 48)) 0 ds"

definition value_error :: "string \<Rightarrow> string" where
  "value_error s = ''invalid literal for int() with base 10: '' @ [CHR 0x27] @ s @ [CHR 0x27]"

fun py_int :: "string \<Rightarrow> string + int" where
  "py_int [] = Inl (value_error [])"
| "py_int (c # cs) =
     (if c = CHR ''-'' \<and> cs \<noteq> [] \<and> list_all is_digit cs then Inr (- int (digits_value cs))
      else if c = CHR ''+'' \<and> cs \<noteq> [] \<and> list_all is_digit cs then Inr (int (digits_value cs))
      else if list_all is_digit (c # cs) then Inr (int (digits_value (c # cs)))
      else Inl (value_error (c # cs)))"

text \<open>Truth value of a Python object, as \<^verbatim>\<open>if st.session_state.research_document:\<close> tests it.\<close>

fun truthy :: "json \<Rightarrow> bool" where
  "truthy JNull = False"
| "truthy (JBool b) = b"
| "truthy (JInt i) = (i \<noteq> 0)"
| "truthy (JStr t) = (t \<noteq> [])"
| "truthy (JList xs) = (xs \<noteq> [])"
| "truthy (JDict kvs) = (kvs \<noteq> [])"

text \<open>Name of a value's type, as an \<^verbatim>\<open>AttributeError\<close> prints it.\<close>

fun type_name :: "json \<Rightarrow> string" where
  "type_name JNull = ''NoneType''"
| "type_name (JBool b) = ''bool''"
| "type_name (JInt i) = ''int''"
| "type_name (JStr t) = ''str''"
| "type_name (JList xs) = ''list''"
| "type_name (JDict kvs) = ''dict''"

definition attribute_error :: "json \<Rightarrow> string \<Rightarrow> string" where
  "attribute_error v attr =
     [CHR 0x27] @ type_name v @ [CHR 0x27] @ '' object has no attribute '' @ [CHR 0x27] @ attr @ [CHR 0x27]"

text \<open>
  \<^verbatim>\<open>v.get(key, default)\<close>: only a dict has the method; on a dict it is the value stored
  under the key, or the default.
\<close>

fun py_get :: "json \<Rightarrow> string \<Rightarrow> json \<Rightarrow> string + json" where
  "py_get (JDict kvs) key dflt = Inr (case map_of kvs key of None \<Rightarrow> dflt | Some v \<Rightarrow> v)"
| "py_get v key dflt = Inl (attribute_error v ''get'')"

text \<open>
  The receiver of \<^verbatim>\<open>.encode()\<close> in line 100: only a str has the method. Whether the
  call then succeeds is decided by \<open>encode\<close> below.
\<close>

fun as_str :: "json \<Rightarrow> string + string" where
  "as_str (JStr t) = Inr t"
| "as_str v = Inl (attribute_error v ''encode'')"

text \<open>An f-string field holding a value that may be \<^verbatim>\<open>None\<close> (line 149).\<close>

fun format_opt :: "string option \<Rightarrow> string" where
  "format_opt None = ''None''"
| "format_opt (Some u) = u"

section \<open>Base64 and the download link\<close>

text \<open>
  \<^verbatim>\<open>s.encode()\<close> (line 100) gives the UTF-8 bytes of a text and raises
  \<^verbatim>\<open>UnicodeEncodeError\<close> when the text holds a lone surrogate. The search below
  finds the first lone surrogate together with its position counted in code points
  (every byte that is not a continuation byte starts one); the exception's text names
  that character, or the positions of the whole run of surrogates that starts there.
  \<^verbatim>\<open>b.decode()\<close>, applied to the ASCII bytes that \<^verbatim>\<open>b64encode\<close> writes, turns
  bytes back into text.
\<close>

type_synonym byte = "8 word"

definition bytes_of :: "string \<Rightarrow> byte list" where
  "bytes_of s = map of_char s"

definition is_continuation :: "char \<Rightarrow> bool" where
  "is_continuation c = (128 \<le> (of_char c :: nat) \<and> (of_char c :: nat) < 192)"

fun starts_with_surrogate :: "string \<Rightarrow> bool" where
  "starts_with_surrogate (a # b # c # rest) = ((of_char a :: nat) = 237 \<and> 160 \<le> (of_char b :: nat))"
| "starts_with_surrogate cs = False"

fun find_surrogate :: "string \<Rightarrow> nat \<Rightarrow> (nat \<times> string) option" where
  "find_surrogate [] pos = None"
| "find_surrogate (c # cs) pos =
     (if starts_with_surrogate (c # cs) then Some (pos, c # cs)
      else find_surrogate cs (if is_continuation c then pos else Suc pos))"

fun surrogate_run :: "string \<Rightarrow> nat" where
  "surrogate_run (a # b # c # rest) =
     (if starts_with_surrogate (a # b # c # rest) then Suc (surrogate_run rest) else 0)"
| "surrogate_run cs = 0"

definition hex_char :: "nat \<Rightarrow> char" where
  "hex_char d = ''0123456789abcdef'' ! (d mod 16)"

fun surrogate_escape :: "string \<Rightarrow> string" where
  "surrogate_escape (a # b # c # rest) =
     (let x = ((of_char b :: nat) mod 64) * 64 + (of_char c :: nat) mod 64
      in [CHR 0x5C] @ ''ud'' @ [hex_char (x div 256), hex_char (x div 16), hex_char x])"
| "surrogate_escape cs = []"

definition unicode_encode_error :: "nat \<Rightarrow> string \<Rightarrow> string" where
  "unicode_encode_error pos rest =
     (let n = surrogate_run rest
      in [CHR 0x27] @ ''utf-8'' @ [CHR 0x27] @ '' codec can'' @ [CHR 0x27] @ ''t encode ''
         @ (if n = 1
            then ''character '' @ [CHR 0x27] @ surrogate_escape rest @ [CHR 0x27]
                 @ '' in position '' @ str_nat pos
            else ''characters in position '' @ str_nat pos @ ''-'' @ str_nat (pos + n - 1))
         @ '': surrogates not allowed'')"

definition encode :: "string \<Rightarrow> string + byte list" where
  "encode s =
     (case find_surrogate s 0 of
        None \<Rightarrow> Inr (bytes_of s)
      | Some (pos, rest) \<Rightarrow> Inl (unicode_encode_error pos rest))"

definition decode :: "byte list \<Rightarrow> string" where
  "decode bs = map (\<lambda>b. char_of (unat b)) bs"

definition b64_alphabet :: string where
  "b64_alphabet = ''ABCDEFGHIJKLMNOPQRSTUVWXYZabcdefghijklmnopqrstuvwxyz0123456789+/''"

definition b64_char :: "byte \<Rightarrow> byte" where
  "b64_char n = of_char (b64_alphabet ! unat (n AND 63))"

definition b64_pad :: byte where
  "b64_pad = of_char (CHR ''='')"

text \<open>
  \<^verbatim>\<open>base64.b64encode\<close>: every three bytes become four characters of the alphabet; a
  last group of one or two bytes is filled with zero bits and padded with \<^verbatim>\<open>=\<close>.
\<close>

fun b64encode :: "byte list \<Rightarrow> byte list" where
  "b64encode [] = []"
| "b64encode [a] =
     [b64_char (drop_bit 2 a), b64_char (push_bit 4 (a AND 3)), b64_pad, b64_pad]"
| "b64encode [a, b] =
     [b64_char (drop_bit 2 a), b64_char (push_bit 4 (a AND 3) OR drop_bit 4 b),
      b64_char (push_bit 2 (b AND 15)), b64_pad]"
| "b64encode (a # b # c # rest) =
     [b64_char (drop_bit 2 a), b64_char (push_bit 4 (a AND 3) OR drop_bit 4 b),
      b64_char (push_bit 2 (b AND 15) OR drop_bit 6 c), b64_char (c AND 63)]
     @ b64encode rest"

text \<open>
  \<^verbatim>\<open>base64.b64decode\<close> (line 116), on input that is base64 as \<^verbatim>\<open>b64encode\<close> writes it:
  groups of four characters of the alphabet, the last group possibly padded. \<open>None\<close>
  stands for every other input.
\<close>

fun index_of :: "'a list \<Rightarrow> 'a \<Rightarrow> nat option" where
  "index_of [] x = None"
| "index_of (y # ys) x = (if x = y then Some 0 else map_option Suc (index_of ys x))"

definition b64_value :: "byte \<Rightarrow> byte option" where
  "b64_value c = map_option of_nat (index_of b64_alphabet (char_of (unat c)))"

fun b64decode :: "byte list \<Rightarrow> byte list option" where
  "b64decode [] = Some []"
| "b64decode (c0 # c1 # c2 # c3 # rest) =
     (case (b64_value c0, b64_value c1) of
        (Some v0, Some v1) \<Rightarrow>
          (if rest = [] \<and> c2 = b64_pad \<and> c3 = b64_pad
           then Some [push_bit 2 v0 OR drop_bit 4 v1]
           else (case b64_value c2 of
                   None \<Rightarrow> None
                 | Some v2 \<Rightarrow>
                     (if rest = [] \<and> c3 = b64_pad
                      then Some [push_bit 2 v0 OR drop_bit 4 v1, push_bit 4 v1 OR drop_bit 2 v2]
                      else (case (b64_value c3, b64decode rest) of
                              (Some v3, Some bs) \<Rightarrow>
                                Some ([push_bit 2 v0 OR drop_bit 4 v1,
                                       push_bit 4 v1 OR drop_bit 2 v2,
                                       push_bit 6 v2 OR v3] @ bs)
                            | _ \<Rightarrow> None))))
      | _ \<Rightarrow> None)"
| "b64decode cs = None"

text \<open>Lines 93-102: the link, or \<open>Inl\<close> of the text of the exception that line 100 raises.\<close>

definition get_download_link :: "string \<Rightarrow> string \<Rightarrow> string + string" where
  \<open>get_download_link file_content file_name =
     (case encode file_content of
        Inl e \<Rightarrow> Inl e
      | Inr bytes \<Rightarrow>
          (let b64 = decode (b64encode bytes)
           in Inr (''<a href="data:file/markdown;base64,'' @ b64 @ ''" download="'' @ file_name
                   @ ''">Download '' @ file_name @ ''</a>'')))\<close>

section \<open>The chat input handler\<close>

text \<open>
  The call \<^verbatim>\<open>requests.post(url, params=..., timeout=...)\<close> of lines 148-173 as a value:
  the method, the URL, the query parameters in the order of the dict and the timeout
  in seconds. A parameter is a Python value of one of four kinds.
\<close>

datatype pyval = PNone | PBool bool | PInt int | PStr string

record request =
  http_method :: string
  url :: string
  params :: "(string \<times> pyval) list"
  timeout :: nat

text \<open>
  What the script reads of a response: \<^verbatim>\<open>status_code\<close>, \<^verbatim>\<open>text\<close>, and the
  result of \<^verbatim>\<open>json()\<close>, which is the parsed body or raises (\<open>Inl\<close> of the exception's
  text). The call itself returns a response or raises (connection refused, timeout).
  The remote API is a function from the request to that outcome.
\<close>

record response =
  status_code :: int
  body_text :: string
  body_json :: "string + json"

datatype outcome = Raised string | Returned response

text \<open>
  What one run of the handler does besides changing the session: the requests it
  posts, the banners of \<^verbatim>\<open>st.error\<close>, the download links it renders, and whether
  the chat input is rendered disabled. Calls that only display text already held in the
  session are not recorded.
\<close>

record effects =
  posted :: "request list"
  errors :: "string list"
  links :: "string list"
  chat_disabled :: bool

definition no_effects :: effects where
  "no_effects = \<lparr>posted = [], errors = [], links = [], chat_disabled = False\<rparr>"

text \<open>Lines 122-124: the names of the flags that are set, in the order of the dict.\<close>

definition active_agent_names :: "session \<Rightarrow> string list" where
  "active_agent_names s =
     map fst (filter snd
       [(''snowflake_agent'', snowflake_agent s),
        (''rag_agent'', rag_agent s),
        (''web_search_agent'', web_search_agent s)])"

text \<open>Lines 161-170: \<^verbatim>\<open>None if v == "None" else int(v)\<close>.\<close>

definition filter_param :: "string \<Rightarrow> string + pyval" where
  "filter_param v =
     (if v = ''None'' then Inr PNone
      else (case py_int v of Inl e \<Rightarrow> Inl e | Inr n \<Rightarrow> Inr (PInt n)))"

text \<open>
  Lines 149-172: the arguments of the call, evaluated before it is made. The base URL
  is \<^verbatim>\<open>os.getenv("FASTAPI_URL")\<close>, absent when the variable is not set.
\<close>

definition chat_request :: "string option \<Rightarrow> string \<Rightarrow> session \<Rightarrow> string + request" where
  "chat_request base prompt s =
     (case filter_param (year s) of
        Inl e \<Rightarrow> Inl e
      | Inr y \<Rightarrow>
          (case filter_param (quarter s) of
             Inl e \<Rightarrow> Inl e
           | Inr q \<Rightarrow>
               Inr \<lparr>http_method = ''POST'',
                    url = format_opt base @ ''/chat'',
                    params =
                      [(''message'', PStr prompt),
                       (''snowflake_agent'', PBool (snowflake_agent s)),
                       (''pinecone_agent'', PBool (rag_agent s)),
                       (''websearch_agent'', PBool (web_search_agent s)),
                       (''year'', y),
                       (''quarter'', q)],
                    timeout = 120\<rparr>))"

text \<open>
  Lines 176-211, the branch for status 200. An exception leaves the branch with the
  session as it is at that point: \<open>Inl\<close> carries the exception's text and that state.
\<close>

definition on_ok ::
  "response \<Rightarrow> session \<Rightarrow> effects \<Rightarrow> (string \<times> session \<times> effects) + (session \<times> effects)" where
  "on_ok r s fx =
     (case body_json r of
        Inl e \<Rightarrow> Inl (e, s, fx)
      | Inr body \<Rightarrow>
          (case py_get body ''report'' (JStr []) of
             Inl e \<Rightarrow> Inl (e, s, fx)
           | Inr report \<Rightarrow>
               (let s1 = s\<lparr>research_document := report\<rparr>
                in case as_str report of
                     Inl e \<Rightarrow> Inl (e, s1, fx)
                   | Inr doc \<Rightarrow>
                       (case get_download_link doc ''Research_Document.md'' of
                          Inl e \<Rightarrow> Inl (e, s1, fx)
                        | Inr href \<Rightarrow>
                            Inr (s1\<lparr>messages := messages s1 @
                                      [\<lparr>role = ''assistant'', content = doc,
                                        is_markdown = Some True, visualization = None\<rparr>]\<rparr>,
                                 fx\<lparr>links := links fx @ [href]\<rparr>)))))"

text \<open>Lines 213-220, the branch for any other status.\<close>

definition on_status :: "response \<Rightarrow> session \<Rightarrow> effects \<Rightarrow> session \<times> effects" where
  "on_status r s fx =
     (s\<lparr>messages := messages s @
          [\<lparr>role = ''assistant'',
            content = ''Error: Unable to generate research document. Status code: ''
                      @ str_int (status_code r),
            is_markdown = Some False, visualization = None\<rparr>]\<rparr>,
      fx\<lparr>errors := errors fx @
          [''Error: '' @ str_int (status_code r) @ '' - '' @ body_text r]\<rparr>)"

text \<open>Lines 148-220, the body of the \<^verbatim>\<open>try\<close>.\<close>

definition try_body ::
  "string option \<Rightarrow> (request \<Rightarrow> outcome) \<Rightarrow> string \<Rightarrow> session
     \<Rightarrow> (string \<times> session \<times> effects) + (session \<times> effects)" where
  "try_body base api prompt s =
     (case chat_request base prompt s of
        Inl e \<Rightarrow> Inl (e, s, no_effects)
      | Inr req \<Rightarrow>
          (let fx = no_effects\<lparr>posted := [req]\<rparr>
           in case api req of
                Raised e \<Rightarrow> Inl (e, s, fx)
              | Returned r \<Rightarrow>
                  (if status_code r = 200 then on_ok r s fx
                   else Inr (on_status r s fx))))"

text \<open>
  Lines 135-229: what happens once the chat input has returned a prompt. The user
  message is appended, the \<^verbatim>\<open>try\<close> runs, and \<^verbatim>\<open>except Exception\<close> (lines 221-229)
  catches whatever it raised.
\<close>

definition submit_query ::
  "string option \<Rightarrow> (request \<Rightarrow> outcome) \<Rightarrow> string \<Rightarrow> session \<Rightarrow> session \<times> effects" where
  "submit_query base api prompt s =
     (let s1 = s\<lparr>messages := messages s @
                  [\<lparr>role = ''user'', content = prompt,
                    is_markdown = None, visualization = None\<rparr>]\<rparr>
      in case try_body base api prompt s1 of
           Inr done \<Rightarrow> done
         | Inl (e, s2, fx) \<Rightarrow>
             (s2\<lparr>messages := messages s2 @
                   [\<lparr>role = ''assistant'',
                     content = ''Error: Unable to connect to the research API. '' @ e,
                     is_markdown = Some False, visualization = None\<rparr>]\<rparr>,
              fx\<lparr>errors := errors fx @ [''Error connecting to API: '' @ e]\<rparr>))"

text \<open>
  Lines 132-231. The chat input yields a prompt or \<^verbatim>\<open>None\<close>; the walrus test of line
  133 passes for a prompt that is not empty. With no active agent the input is rendered
  disabled and what it returns is dropped.
\<close>

definition chat_input_handler ::
  "string option \<Rightarrow> (request \<Rightarrow> outcome) \<Rightarrow> string option \<Rightarrow> session \<Rightarrow> session \<times> effects" where
  "chat_input_handler base api chat_input s =
     (if length (active_agent_names s) > 0 then
        (case chat_input of
           None \<Rightarrow> (s, no_effects)
         | Some prompt \<Rightarrow>
             (if prompt \<noteq> [] then submit_query base api prompt s else (s, no_effects)))
      else (s, no_effects\<lparr>chat_disabled := True\<rparr>))"

text \<open>
  Lines 234-239: the download link of the sidebar, rendered when the last report is
  truthy. Nothing catches the exception of \<^verbatim>\<open>get_download_link\<close> here.
\<close>

definition sidebar_download :: "session \<Rightarrow> string + string option" where
  "sidebar_download s =
     (if truthy (research_document s) then
        (case as_str (research_document s) of
           Inl e \<Rightarrow> Inl e
         | Inr doc \<Rightarrow>
             (case get_download_link doc ''Research_Document.md'' of
                Inl e \<Rightarrow> Inl e
              | Inr href \<Rightarrow> Inr (Some href)))
      else Inr None)"

section \<open>Widgets, one run of the script, and user events\<close>

text \<open>
  Streamlit identifies a widget that has no key by its parameters: label, options,
  default value. Between two runs the front end holds, for each widget of the last
  run, the value the user has given it; a run that calls a widget with the same
  identity gets the held value, a run that calls it with another identity gets a new
  widget at its default, and what the old one held is lost.

  Lines 41-57 pass the stored flag as the default of each checkbox, so a checkbox
  changes identity whenever its flag has changed. \<open>Rendered d h\<close> is a checkbox
  created with the default \<open>d\<close>, to which the user has since given the value \<open>h\<close>
  (\<open>None\<close>: left alone); a click gives the rendered checkbox a value.
\<close>

datatype box = Unrendered | Rendered bool "bool option"

definition checkbox :: "bool \<Rightarrow> box \<Rightarrow> bool \<times> box" where
  "checkbox val b =
     (case b of
        Unrendered \<Rightarrow> (val, Rendered val None)
      | Rendered d held \<Rightarrow>
          (if d = val then (case held of None \<Rightarrow> val | Some v \<Rightarrow> v, Rendered d held)
           else (val, Rendered val None)))"

fun click_box :: "bool \<Rightarrow> box \<Rightarrow> box" where
  "click_box v Unrendered = Unrendered"
| "click_box v (Rendered d held) = Rendered d (Some v)"

text \<open>
  The two selectors are called with constant parameters, so each keeps its identity
  and its held value through all runs. The argument \<^verbatim>\<open>disabled\<close> of
  \<^verbatim>\<open>st.selectbox\<close> only stops the user from changing the widget in the browser: it
  takes no part in the value returned, and Streamlit documents that disabling a widget
  does not affect its identity. The two calls of lines 70-81 agree on label, options
  and index, hence are one widget with one held value.
\<close>

record widgets =
  snowflake_box :: box
  rag_box :: box
  web_box :: box
  year_select :: "string option"
  quarter_select :: "string option"

definition fresh_widgets :: widgets where
  "fresh_widgets =
     \<lparr>snowflake_box = Unrendered, rag_box = Unrendered, web_box = Unrendered,
      year_select = None, quarter_select = None\<rparr>"

definition selectbox :: "string list \<Rightarrow> nat \<Rightarrow> bool \<Rightarrow> string option \<Rightarrow> string" where
  "selectbox options index disabled held = (case held of None \<Rightarrow> options ! index | Some v \<Rightarrow> v)"

definition year_options :: "string list" where
  "year_options = [''None'', ''2022'', ''2023'', ''2024'', ''2025'']"

definition quarter_options :: "string list" where
  "quarter_options = [''None'', ''1'', ''2'', ''3'', ''4'']"

text \<open>
  Lines 41-57: each flag is assigned what its checkbox returns, the checkbox being
  called with the flag as default.
\<close>

definition select_agents :: "widgets \<Rightarrow> session \<Rightarrow> widgets \<times> session" where
  "select_agents w s =
     (let (v1, b1) = checkbox (snowflake_agent s) (snowflake_box w);
          (v2, b2) = checkbox (rag_agent s) (rag_box w);
          (v3, b3) = checkbox (web_search_agent s) (web_box w)
      in (w\<lparr>snowflake_box := b1, rag_box := b2, web_box := b3\<rparr>,
          s\<lparr>snowflake_agent := v1, rag_agent := v2, web_search_agent := v3\<rparr>))"

text \<open>Lines 66-81: the two selectors.\<close>

definition set_filters :: "widgets \<Rightarrow> session \<Rightarrow> session" where
  "set_filters w s =
     (let s1 = s\<lparr>year := selectbox year_options 1 False (year_select w)\<rparr>
      in if year s1 = ''None''
         then s1\<lparr>quarter := selectbox quarter_options 0 True (quarter_select w)\<rparr>
         else s1\<lparr>quarter := selectbox quarter_options 0 False (quarter_select w)\<rparr>)"

text \<open>
  Lines 106-119: how one message of the transcript is displayed. An assistant message
  flagged as markdown is rendered as markdown, followed by the decoded image when the
  message has the key \<^verbatim>\<open>visualization\<close>; any other message is written as it is.
\<close>

datatype element = Markdown string | Image "byte list option" | Written string

definition render_message :: "message \<Rightarrow> element list" where
  "render_message m =
     (if role m = ''assistant'' \<and> is_markdown m = Some True
      then Markdown (content m) #
           (case visualization m of
              None \<Rightarrow> []
            | Some v \<Rightarrow> [Image (b64decode (bytes_of v))])
      else [Written (content m)])"

text \<open>
  One run of the script from top to bottom: the sidebar, the button, the chat input
  handler and the download link of the sidebar; the loop over the transcript displays
  the messages and changes nothing. \<open>clicked\<close> is what the button returns
  and \<open>chat_input\<close> what the chat input returns in this run. After the button's branch
  \<^verbatim>\<open>st.rerun()\<close> abandons the run and starts the script again, with the same widget
  values and neither the button nor the chat input triggered. The result is what the
  front end holds after the run, the session, what the run did, and the link of the
  sidebar.
\<close>

definition run_script ::
  "string option \<Rightarrow> (request \<Rightarrow> outcome) \<Rightarrow> widgets \<Rightarrow> bool \<Rightarrow> string option \<Rightarrow> session
     \<Rightarrow> widgets \<times> session \<times> effects \<times> (string + string option)" where
  "run_script base api w clicked chat_input s =
     (let (w1, s1) = select_agents w s;
          s2 = set_filters w1 s1
      in if clicked
         then (let (w2, s3) = select_agents w1 (clear_session s2);
                   (s4, fx) = chat_input_handler base api None (set_filters w2 s3)
               in (w2, s4, fx, sidebar_download s4))
         else (let (s4, fx) = chat_input_handler base api chat_input s2
               in (w1, s4, fx, sidebar_download s4)))"

text \<open>
  What the user can do in the browser between two runs. Every event changes what the
  front end holds and starts a run. A selector offers only its options; the quarter
  selector and the chat input accept the user's action only if the last run rendered
  them enabled.
\<close>

datatype agent = Snowflake | Rag | Web_search

datatype event =
    Toggle agent bool
  | Pick_year string
  | Pick_quarter string
  | Click_clear
  | Submit string

fun toggle_agent :: "agent \<Rightarrow> bool \<Rightarrow> widgets \<Rightarrow> widgets" where
  "toggle_agent Snowflake enabled w = w\<lparr>snowflake_box := click_box enabled (snowflake_box w)\<rparr>"
| "toggle_agent Rag enabled w = w\<lparr>rag_box := click_box enabled (rag_box w)\<rparr>"
| "toggle_agent Web_search enabled w = w\<lparr>web_box := click_box enabled (web_box w)\<rparr>"

definition after_run ::
  "widgets \<times> session \<times> effects \<times> (string + string option) \<Rightarrow> widgets \<times> session" where
  "after_run r = (fst r, fst (snd r))"

fun on_event ::
  "string option \<Rightarrow> (request \<Rightarrow> outcome) \<Rightarrow> event \<Rightarrow> widgets \<times> session \<Rightarrow> widgets \<times> session" where
  "on_event base api (Toggle a enabled) (w, s) =
     after_run (run_script base api (toggle_agent a enabled w) False None s)"
| "on_event base api (Pick_year y) (w, s) =
     (if y \<in> set year_options
      then after_run (run_script base api (w\<lparr>year_select := Some y\<rparr>) False None s)
      else (w, s))"
| "on_event base api (Pick_quarter q) (w, s) =
     (if q \<in> set quarter_options \<and> year s \<noteq> ''None''
      then after_run (run_script base api (w\<lparr>quarter_select := Some q\<rparr>) False None s)
      else (w, s))"
| "on_event base api Click_clear (w, s) =
     after_run (run_script base api w True None s)"
| "on_event base api (Submit prompt) (w, s) =
     (if length (active_agent_names s) > 0 \<and> prompt \<noteq> []
      then after_run (run_script base api w False (Some prompt) s)
      else (w, s))"

text \<open>The page as first loaded, and a sequence of events from there or from any state.\<close>

definition first_load :: "string option \<Rightarrow> (request \<Rightarrow> outcome) \<Rightarrow> widgets \<times> session" where
  "first_load base api = after_run (run_script base api fresh_widgets False None init_session)"

definition run_events ::
  "string option \<Rightarrow> (request \<Rightarrow> outcome) \<Rightarrow> event list \<Rightarrow> widgets \<times> session \<Rightarrow> widgets \<times> session" where
  "run_events base api evs st = foldl (\<lambda>st ev. on_event base api ev st) st evs"

text \<open>A sequence of checkbox changes as a sequence of events, each followed by its run.\<close>

definition toggles :: "(agent \<times> bool) list \<Rightarrow> event list" where
  "toggles ops = map (\<lambda>(a, enabled). Toggle a enabled) ops"

text \<open>
  Two conditions used as invariants of the runs: the front end holds only options for
  the two selectors, and the two filters of the session are options.
\<close>

definition holds_options :: "widgets \<Rightarrow> bool" where
  "holds_options w =
     ((case year_select w of None \<Rightarrow> True | Some y \<Rightarrow> y \<in> set year_options)
      \<and> (case quarter_select w of None \<Rightarrow> True | Some q \<Rightarrow> q \<in> set quarter_options))"

definition filters_in_options :: "session \<Rightarrow> bool" where
  "filters_in_options s = (year s \<in> set year_options \<and> quarter s \<in> set quarter_options)"

section \<open>The reading side of the link, and the parameters as the interface lists them\<close>

text \<open>
  What a reader of the hyperlink takes as the payload of the data URI: the characters
  after the marker \<^verbatim>\<open>base64,\<close> up to the quote that closes the attribute.
\<close>

definition href_payload :: "string \<Rightarrow> string" where
  \<open>href_payload href =
     takeWhile (\<lambda>c. c \<noteq> CHR 0x22) (drop (length ''<a href="data:file/markdown;base64,'') href)\<close>

text \<open>
  The conversion of the two selections as the description of the outbound call states
  it: the integer of the selected year or quarter, and no value for the selection
  \<^verbatim>\<open>None\<close>.
\<close>

definition spec_year_param :: "(string \<times> pyval) list" where
  "spec_year_param =
     [(''None'', PNone), (''2022'', PInt 2022), (''2023'', PInt 2023),
      (''2024'', PInt 2024), (''2025'', PInt 2025)]"

definition spec_quarter_param :: "(string \<times> pyval) list" where
  "spec_quarter_param =
     [(''None'', PNone), (''1'', PInt 1), (''2'', PInt 2), (''3'', PInt 3), (''4'', PInt 4)]"

section \<open>Scenarios\<close>

text \<open>
  A session with only the retrieval agent active, fiscal year 2023 and quarter 2, and
  some behaviours of the remote API: status 500 with the body \<^verbatim>\<open>internal error\<close>;
  status 200 with a report and a visualization; status 200 with a JSON object that has
  no report; status 200 with a body that is not JSON.
\<close>

definition session_2023_q2 :: session where
  "session_2023_q2 = init_session\<lparr>rag_agent := True, year := ''2023'', quarter := ''2''\<rparr>"

definition request_2023_q2 :: request where
  "request_2023_q2 =
     \<lparr>http_method = ''POST'', url = ''http://api.test/chat'',
      params =
        [(''message'', PStr ''What was the revenue of NVIDIA?''),
         (''snowflake_agent'', PBool False),
         (''pinecone_agent'', PBool True),
         (''websearch_agent'', PBool False),
         (''year'', PInt 2023),
         (''quarter'', PInt 2)],
      timeout = 120\<rparr>"

definition response_500 :: response where
  "response_500 =
     \<lparr>status_code = 500, body_text = ''internal error'',
      body_json = Inl ''Expecting value: line 1 column 1 (char 0)''\<rparr>"

definition api_500 :: "request \<Rightarrow> outcome" where
  "api_500 req = Returned response_500"

definition response_chart :: response where
  "response_chart =
     \<lparr>status_code = 200, body_text = ''{\"report\": \"# Revenue\", \"visualization\": \"aGk=\"}'',
      body_json = Inr (JDict [(''report'', JStr ''# Revenue''), (''visualization'', JStr ''aGk='')])\<rparr>"

definition api_chart :: "request \<Rightarrow> outcome" where
  "api_chart req = Returned response_chart"

definition response_no_report :: response where
  "response_no_report =
     \<lparr>status_code = 200, body_text = ''{\"detail\": \"done\"}'',
      body_json = Inr (JDict [(''detail'', JStr ''done'')])\<rparr>"

definition api_no_report :: "request \<Rightarrow> outcome" where
  "api_no_report req = Returned response_no_report"

definition response_not_json :: response where
  "response_not_json =
     \<lparr>status_code = 200, body_text = ''<html>Bad gateway</html>'',
      body_json = Inl ''Expecting value: line 1 column 1 (char 0)''\<rparr>"

definition api_not_json :: "request \<Rightarrow> outcome" where
  "api_not_json req = Returned response_not_json"

text \<open>
  Status 200 with a report that is the single lone surrogate U+D800, written in the body
  as a JSON escape.
\<close>

definition lone_surrogate :: string where
  "lone_surrogate = [CHR 0xED, CHR 0xA0, CHR 0x80]"

text \<open>
  The text of the exception that Python raises on encoding it:
  \<^verbatim>\<open>'utf-8' codec can't encode character '\ud800' in position 0: surrogates not allowed\<close>.
\<close>

definition lone_surrogate_error :: string where
  "lone_surrogate_error =
     [CHR 0x27] @ ''utf-8'' @ [CHR 0x27] @ '' codec can'' @ [CHR 0x27] @ ''t encode character ''
     @ [CHR 0x27, CHR 0x5C] @ ''ud800'' @ [CHR 0x27] @ '' in position 0: surrogates not allowed''"

definition response_surrogate :: response where
  "response_surrogate =
     \<lparr>status_code = 200, body_text = ''{\"report\": \"'' @ [CHR 0x5C] @ ''ud800\"}'',
      body_json = Inr (JDict [(''report'', JStr lone_surrogate)])\<rparr>"

definition api_surrogate :: "request \<Rightarrow> outcome" where
  "api_surrogate req = Returned response_surrogate"

section \<open>Basic facts about the handler\<close>

lemma chat_request_messages:
  "chat_request base prompt (s\<lparr>messages := ms\<rparr>) = chat_request base prompt s"
  by (simp add: chat_request_def split: sum.splits)

lemma filter_param_year:
  "map_of spec_year_param v = Some y \<Longrightarrow> filter_param v = Inr y"
  by (auto simp: spec_year_param_def filter_param_def is_digit_def digits_value_def
      split: if_splits)

lemma filter_param_quarter:
  "map_of spec_quarter_param v = Some q \<Longrightarrow> filter_param v = Inr q"
  by (auto simp: spec_quarter_param_def filter_param_def is_digit_def digits_value_def
      split: if_splits)

lemma active_agent_names_set_filters:
  "active_agent_names (set_filters w s) = active_agent_names s"
  by (simp add: active_agent_names_def set_filters_def Let_def)

lemma messages_set_filters: "messages (set_filters w s) = messages s"
  by (simp add: set_filters_def Let_def)

lemma messages_select_agents: "messages (snd (select_agents w s)) = messages s"
  by (simp add: select_agents_def Let_def split: prod.splits)

lemma encode_empty: "encode [] = Inr []"
  by (simp add: encode_def bytes_of_def)

lemma chat_request_2023_q2:
  "chat_request (Some ''http://api.test'') ''What was the revenue of NVIDIA?'' session_2023_q2
     = Inr request_2023_q2"
  by (simp add: chat_request_def filter_param_def is_digit_def digits_value_def
      request_2023_q2_def session_2023_q2_def init_session_def)

lemma session_2023_q2_fields:
  "messages session_2023_q2 = []" "research_document session_2023_q2 = JNull"
  by (simp_all add: session_2023_q2_def init_session_def)

section \<open>Messages appended by one submission\<close>

text \<open>
  C1: when at least one agent is active and the prompt is not empty, one run of the
  chat input handler appends exactly two messages to the session: the user message with
  the prompt, then exactly one assistant message. This holds for every behaviour of the
  remote API (a report, a status other than 200, an exception of the call or of reading
  the body).
\<close>

theorem submit_query_appends_two:
  assumes "length (active_agent_names s) > 0" and "prompt \<noteq> []"
  shows "\<exists>a. messages (fst (chat_input_handler base api (Some prompt) s))
               = messages s @
                   [\<lparr>role = ''user'', content = prompt, is_markdown = None, visualization = None\<rparr>, a]
             \<and> role a = ''assistant''"
  using assms
  by (auto simp: chat_input_handler_def submit_query_def try_body_def on_ok_def on_status_def
      Let_def split: sum.splits outcome.splits)

theorem submit_query_appends_two_witness:
  "length (active_agent_names session_2023_q2) > 0 \<and> ''hello'' \<noteq> [] \<and>
   (\<exists>a. messages (fst (chat_input_handler None api_500 (Some ''hello'') session_2023_q2))
           = messages session_2023_q2 @
               [\<lparr>role = ''user'', content = ''hello'', is_markdown = None, visualization = None\<rparr>, a]
         \<and> role a = ''assistant'')"
proof -
  have a: "length (active_agent_names session_2023_q2) > 0"
    by (simp add: active_agent_names_def session_2023_q2_def init_session_def)
  have b: "''hello'' \<noteq> []" by simp
  from submit_query_appends_two [OF a b, of None api_500] a b show ?thesis by blast
qed

section \<open>A response with status 200\<close>

text \<open>
  C2: when the API answers with status 200 and a JSON object whose report is a string
  that \<^verbatim>\<open>encode()\<close> accepts, the report is stored as the last report and one assistant message is appended with
  the report as content and the markdown flag set. The message is appended without the
  key \<^verbatim>\<open>visualization\<close>, whatever the response body holds: the handler never reads
  a visualization, although line 204 announces it and lines 114-117 display one.
\<close>

theorem ok_response_stored_without_visualization:
  assumes "chat_request base prompt s = Inr req"
    and "api req = Returned r"
    and "status_code r = 200"
    and "body_json r = Inr (JDict kvs)"
    and "map_of kvs ''report'' = Some (JStr report)"
    and "encode report = Inr bytes"
  shows "messages (fst (submit_query base api prompt s)) =
           messages s @
             [\<lparr>role = ''user'', content = prompt, is_markdown = None, visualization = None\<rparr>,
              \<lparr>role = ''assistant'', content = report,
               is_markdown = Some True, visualization = None\<rparr>]
         \<and> research_document (fst (submit_query base api prompt s)) = JStr report"
  using assms
  by (simp add: submit_query_def try_body_def chat_request_messages on_ok_def no_effects_def
      get_download_link_def Let_def)

theorem ok_response_stored_without_visualization_witness:
  "chat_request (Some ''http://api.test'') ''What was the revenue of NVIDIA?'' session_2023_q2
     = Inr request_2023_q2
   \<and> api_chart request_2023_q2 = Returned response_chart
   \<and> status_code response_chart = 200
   \<and> body_json response_chart =
       Inr (JDict [(''report'', JStr ''# Revenue''), (''visualization'', JStr ''aGk='')])
   \<and> map_of [(''report'', JStr ''# Revenue''), (''visualization'', JStr ''aGk='')] ''visualization''
       = Some (JStr ''aGk='')
   \<and> encode ''# Revenue'' = Inr (bytes_of ''# Revenue'')
   \<and> map (\<lambda>m. (role m, content m, visualization m))
        (messages (fst (submit_query (Some ''http://api.test'') api_chart
                          ''What was the revenue of NVIDIA?'' session_2023_q2)))
       = [(''user'', ''What was the revenue of NVIDIA?'', None),
          (''assistant'', ''# Revenue'', None)]"
proof -
  have 2: "api_chart request_2023_q2 = Returned response_chart"
    by (simp add: api_chart_def)
  have 3: "status_code response_chart = 200"
    by (simp add: response_chart_def)
  have 4: "body_json response_chart =
             Inr (JDict [(''report'', JStr ''# Revenue''), (''visualization'', JStr ''aGk='')])"
    by (simp add: response_chart_def)
  have 5: "map_of [(''report'', JStr ''# Revenue''), (''visualization'', JStr ''aGk='')] ''report''
             = Some (JStr ''# Revenue'')"
    by simp
  have 6: "map_of [(''report'', JStr ''# Revenue''), (''visualization'', JStr ''aGk='')] ''visualization''
             = Some (JStr ''aGk='')"
    by simp
  have 7: "encode ''# Revenue'' = Inr (bytes_of ''# Revenue'')"
    by (simp add: encode_def is_continuation_def)
  from ok_response_stored_without_visualization
         [where kvs = "[(''report'', JStr ''# Revenue''), (''visualization'', JStr ''aGk='')]"
            and report = "''# Revenue''" and r = response_chart and req = request_2023_q2
            and api = api_chart and s = session_2023_q2, OF chat_request_2023_q2 2 3 4 5 7]
       chat_request_2023_q2 2 3 4 6 7 session_2023_q2_fields
  show ?thesis by simp
qed

section \<open>A response with another status\<close>

text \<open>
  C3, as stated, fails: for status 500 with the body \<^verbatim>\<open>internal error\<close> the content of
  the assistant message does not contain both the status code and the body text.
\<close>

theorem non_ok_status_counterexample:
  "\<not> (sublist ''500''
          (content (last (messages (fst (submit_query (Some ''http://api.test'') api_500
                                          ''What was the revenue of NVIDIA?'' session_2023_q2)))))
      \<and> sublist ''internal error''
          (content (last (messages (fst (submit_query (Some ''http://api.test'') api_500
                                          ''What was the revenue of NVIDIA?'' session_2023_q2))))))"
  by code_simp

text \<open>
  C3, amended: when the API answers with a status other than 200, the session gains the
  user message and exactly one assistant message that is not markdown and whose content
  is a fixed sentence followed by the status code; the last report is unchanged. The
  body text of the response appears in the error banner of that run, next to the status
  code, and not in the message.
\<close>

theorem non_ok_status_message:
  assumes "chat_request base prompt s = Inr req"
    and "api req = Returned r"
    and "status_code r \<noteq> 200"
  shows "messages (fst (submit_query base api prompt s)) =
           messages s @
             [\<lparr>role = ''user'', content = prompt, is_markdown = None, visualization = None\<rparr>,
              \<lparr>role = ''assistant'',
               content = ''Error: Unable to generate research document. Status code: ''
                         @ str_int (status_code r),
               is_markdown = Some False, visualization = None\<rparr>]
         \<and> sublist (str_int (status_code r))
              (content (last (messages (fst (submit_query base api prompt s)))))
         \<and> research_document (fst (submit_query base api prompt s)) = research_document s
         \<and> errors (snd (submit_query base api prompt s)) =
             [''Error: '' @ str_int (status_code r) @ '' - '' @ body_text r]"
proof -
  have "submit_query base api prompt s =
          (s\<lparr>messages := messages s @
               [\<lparr>role = ''user'', content = prompt, is_markdown = None, visualization = None\<rparr>,
                \<lparr>role = ''assistant'',
                 content = ''Error: Unable to generate research document. Status code: ''
                           @ str_int (status_code r),
                 is_markdown = Some False, visualization = None\<rparr>]\<rparr>,
           \<lparr>posted = [req],
            errors = [''Error: '' @ str_int (status_code r) @ '' - '' @ body_text r],
            links = [], chat_disabled = False\<rparr>)"
    using assms
    by (simp add: submit_query_def try_body_def chat_request_messages on_status_def
        no_effects_def Let_def)
  then show ?thesis
    by (simp del: append.simps add: sublist_appendI)
qed

theorem non_ok_status_message_witness:
  "chat_request (Some ''http://api.test'') ''What was the revenue of NVIDIA?'' session_2023_q2
     = Inr request_2023_q2
   \<and> api_500 request_2023_q2 = Returned response_500
   \<and> status_code response_500 \<noteq> 200
   \<and> map (\<lambda>m. (role m, content m, is_markdown m))
        (messages (fst (submit_query (Some ''http://api.test'') api_500
                          ''What was the revenue of NVIDIA?'' session_2023_q2)))
       = [(''user'', ''What was the revenue of NVIDIA?'', None),
          (''assistant'', ''Error: Unable to generate research document. Status code: 500'',
           Some False)]
   \<and> research_document (fst (submit_query (Some ''http://api.test'') api_500
                                ''What was the revenue of NVIDIA?'' session_2023_q2)) = JNull
   \<and> errors (snd (submit_query (Some ''http://api.test'') api_500
                     ''What was the revenue of NVIDIA?'' session_2023_q2))
       = [''Error: 500 - internal error'']"
proof -
  have 2: "api_500 request_2023_q2 = Returned response_500"
    by (simp add: api_500_def)
  have 3: "status_code response_500 \<noteq> 200"
    by (simp add: response_500_def)
  have c: "str_int (status_code response_500) = ''500''"
    by code_simp
  have b: "body_text response_500 = ''internal error''"
    by (simp add: response_500_def)
  note t = non_ok_status_message
             [where r = response_500 and req = request_2023_q2 and api = api_500
                and s = session_2023_q2, OF chat_request_2023_q2 2 3]
  from t [THEN conjunct1] t [THEN conjunct2, THEN conjunct2]
       chat_request_2023_q2 2 3 c b session_2023_q2_fields
  show ?thesis by simp
qed

section \<open>The guard on the chat input\<close>

text \<open>A run leaves the flags as the checkboxes returned them, and without a prompt it appends nothing.\<close>

lemma submit_query_flags:
  "active_agent_names (fst (submit_query base api prompt s)) = active_agent_names s"
  by (auto simp: submit_query_def try_body_def on_ok_def on_status_def active_agent_names_def
      Let_def split: sum.splits outcome.splits)

lemma chat_input_handler_flags:
  "active_agent_names (fst (chat_input_handler base api chat_input s)) = active_agent_names s"
  by (simp add: chat_input_handler_def submit_query_flags split: option.splits)

lemma chat_input_handler_no_prompt:
  "messages (fst (chat_input_handler base api None s)) = messages s"
  by (simp add: chat_input_handler_def)

lemma chat_input_handler_no_agent:
  "active_agent_names s = [] \<Longrightarrow>
   chat_input_handler base api chat_input s = (s, no_effects\<lparr>chat_disabled := True\<rparr>)"
  by (simp add: chat_input_handler_def)

lemma run_script_no_prompt:
  "messages (fst (snd (run_script base api w False None s))) = messages s"
  by (simp add: run_script_def Let_def chat_input_handler_no_prompt messages_set_filters
      messages_select_agents split: prod.splits)
     (metis chat_input_handler_no_prompt fst_conv messages_select_agents messages_set_filters
      snd_conv)

lemma on_event_toggle_messages:
  "messages (snd (on_event base api (Toggle a enabled) st)) = messages (snd st)"
  by (cases st) (simp add: after_run_def run_script_no_prompt)

lemma run_toggles_messages:
  "messages (snd (run_events base api (toggles ops) st)) = messages (snd st)"
proof (induction ops arbitrary: st)
  case Nil
  show ?case by (simp add: run_events_def toggles_def)
next
  case (Cons op ops)
  obtain a enabled where op: "op = (a, enabled)" by (cases op)
  have "run_events base api (toggles (op # ops)) st
          = run_events base api (toggles ops) (on_event base api (Toggle a enabled) st)"
    by (simp add: run_events_def toggles_def op)
  then show ?case
    by (simp add: Cons.IH on_event_toggle_messages)
qed

lemma run_script_no_agent:
  assumes "run_script base api w False chat_input s = (w', s', fx, link)"
    and "active_agent_names s' = []"
  shows "messages s' = messages s \<and> chat_disabled fx \<and> posted fx = []"
proof -
  obtain w1 s1 where sel: "select_agents w s = (w1, s1)" by (cases "select_agents w s")
  have run: "chat_input_handler base api chat_input (set_filters w1 s1) = (s', fx)"
    using assms(1) sel by (simp add: run_script_def Let_def split: prod.splits)
  have "active_agent_names (set_filters w1 s1) = active_agent_names s'"
    using chat_input_handler_flags [of base api chat_input "set_filters w1 s1"] run by simp
  with assms(2) have "active_agent_names (set_filters w1 s1) = []" by simp
  from chat_input_handler_no_agent [OF this, of base api chat_input] run
  have "s' = set_filters w1 s1" and "fx = no_effects\<lparr>chat_disabled := True\<rparr>" by simp_all
  moreover have "messages s1 = messages s"
    using messages_select_agents [of w s] sel by simp
  ultimately show ?thesis
    by (simp add: messages_set_filters no_effects_def)
qed

text \<open>
  The checkboxes as the script calls them: on the page as first loaded, checking the
  retrieval agent and then unchecking it leaves the flag set, because the run after
  the second click calls the checkbox with the new default and gets a new widget; a
  second click on that widget clears the flag.
\<close>

lemma check_then_uncheck_keeps_flag:
  "rag_agent (snd (run_events None api_chart (toggles [(Rag, True), (Rag, False)])
                     (first_load None api_chart))) = True"
  by code_simp

lemma check_then_uncheck_twice_clears_flag:
  "rag_agent (snd (run_events None api_chart
                     (toggles [(Rag, True), (Rag, False), (Rag, False)])
                     (first_load None api_chart))) = False"
  by code_simp

text \<open>
  C4: take any state of the page, any sequence of checkbox changes (each followed by its
  run of the script), and then a run in which the chat input returns anything at all.
  If no agent flag is set in that run, then the chat input is rendered disabled, no
  request is posted, and the message sequence is still the one before the first
  checkbox change: no message has been appended. A submission is therefore accepted
  only in a run in which at least one flag is set.
\<close>

theorem no_agent_no_submission:
  assumes "run_events base api (toggles ops) st = (w, s)"
    and "run_script base api w False chat_input s = (w', s', fx, link)"
    and "active_agent_names s' = []"
  shows "messages s' = messages (snd st) \<and> chat_disabled fx \<and> posted fx = []"
proof -
  have "messages s = messages (snd st)"
    using run_toggles_messages [of base api ops st] assms(1) by simp
  with run_script_no_agent [OF assms(2) assms(3)] show ?thesis by simp
qed

theorem no_agent_no_submission_witness:
  "run_events None api_chart (toggles [(Rag, True), (Rag, False), (Rag, False)])
     (first_load None api_chart)
     = (fresh_widgets\<lparr>snowflake_box := Rendered False None,
                      rag_box := Rendered True (Some False),
                      web_box := Rendered False None\<rparr>,
        init_session\<lparr>year := ''2022'', quarter := ''None''\<rparr>)
   \<and> run_script None api_chart
        (fresh_widgets\<lparr>snowflake_box := Rendered False None,
                       rag_box := Rendered True (Some False),
                       web_box := Rendered False None\<rparr>)
        False (Some ''hello'') (init_session\<lparr>year := ''2022'', quarter := ''None''\<rparr>)
     = (fresh_widgets\<lparr>snowflake_box := Rendered False None,
                      rag_box := Rendered False None,
                      web_box := Rendered False None\<rparr>,
        init_session\<lparr>year := ''2022'', quarter := ''None''\<rparr>,
        no_effects\<lparr>chat_disabled := True\<rparr>, Inr None)
   \<and> active_agent_names (init_session\<lparr>year := ''2022'', quarter := ''None''\<rparr>) = []
   \<and> messages (init_session\<lparr>year := ''2022'', quarter := ''None''\<rparr>)
       = messages (snd (first_load None api_chart))
   \<and> chat_disabled (no_effects\<lparr>chat_disabled := True\<rparr>)
   \<and> posted (no_effects\<lparr>chat_disabled := True\<rparr>) = []"
proof -
  have 1: "run_events None api_chart (toggles [(Rag, True), (Rag, False), (Rag, False)])
             (first_load None api_chart)
           = (fresh_widgets\<lparr>snowflake_box := Rendered False None,
                            rag_box := Rendered True (Some False),
                            web_box := Rendered False None\<rparr>,
              init_session\<lparr>year := ''2022'', quarter := ''None''\<rparr>)"
    by code_simp
  have 2: "run_script None api_chart
             (fresh_widgets\<lparr>snowflake_box := Rendered False None,
                            rag_box := Rendered True (Some False),
                            web_box := Rendered False None\<rparr>)
             False (Some ''hello'') (init_session\<lparr>year := ''2022'', quarter := ''None''\<rparr>)
           = (fresh_widgets\<lparr>snowflake_box := Rendered False None,
                            rag_box := Rendered False None,
                            web_box := Rendered False None\<rparr>,
              init_session\<lparr>year := ''2022'', quarter := ''None''\<rparr>,
              no_effects\<lparr>chat_disabled := True\<rparr>, Inr None)"
    by code_simp
  have 3: "active_agent_names (init_session\<lparr>year := ''2022'', quarter := ''None''\<rparr>) = []"
    by (simp add: active_agent_names_def init_session_def)
  from no_agent_no_submission [OF 1 2 3] 1 2 3 show ?thesis by simp
qed

section \<open>The outbound request\<close>

text \<open>
  In every state reached from the first load of the page by user events, the year and
  the quarter of the session are options of their selectors, so both have a parameter
  value in the tables of the interface.
\<close>

lemma set_filters_in_options:
  "holds_options w \<Longrightarrow> filters_in_options (set_filters w s)"
  by (auto simp: holds_options_def filters_in_options_def set_filters_def selectbox_def
      year_options_def quarter_options_def Let_def split: option.splits)

lemma submit_query_filters:
  "year (fst (submit_query base api prompt s)) = year s
   \<and> quarter (fst (submit_query base api prompt s)) = quarter s"
  by (auto simp: submit_query_def try_body_def on_ok_def on_status_def Let_def
      split: sum.splits outcome.splits)

lemma chat_input_handler_filters:
  "filters_in_options (fst (chat_input_handler base api chat_input s)) = filters_in_options s"
  by (simp add: chat_input_handler_def filters_in_options_def submit_query_filters
      split: option.splits)

lemma holds_options_select_agents:
  "holds_options (fst (select_agents w s)) = holds_options w"
  by (simp add: select_agents_def holds_options_def Let_def split: prod.splits)

lemma run_script_in_options:
  assumes "holds_options w"
  shows "holds_options (fst (run_script base api w clicked chat_input s))
         \<and> filters_in_options (fst (snd (run_script base api w clicked chat_input s)))"
proof -
  obtain w1 s1 where 1: "select_agents w s = (w1, s1)"
    by (cases "select_agents w s")
  obtain w2 s3 where 2: "select_agents w1 (clear_session (set_filters w1 s1)) = (w2, s3)"
    by (cases "select_agents w1 (clear_session (set_filters w1 s1))")
  have w1: "holds_options w1"
    using holds_options_select_agents [of w s] 1 assms by simp
  have w2: "holds_options w2"
    using holds_options_select_agents [of w1 "clear_session (set_filters w1 s1)"] 2 w1 by simp
  show ?thesis
  proof (cases clicked)
    case True
    then have "run_script base api w clicked chat_input s =
                 (w2, fst (chat_input_handler base api None (set_filters w2 s3)),
                  snd (chat_input_handler base api None (set_filters w2 s3)),
                  sidebar_download (fst (chat_input_handler base api None (set_filters w2 s3))))"
      by (simp add: run_script_def 1 2 Let_def split: prod.splits)
    then show ?thesis
      by (simp add: w2 chat_input_handler_filters set_filters_in_options)
  next
    case False
    then have "run_script base api w clicked chat_input s =
                 (w1, fst (chat_input_handler base api chat_input (set_filters w1 s1)),
                  snd (chat_input_handler base api chat_input (set_filters w1 s1)),
                  sidebar_download (fst (chat_input_handler base api chat_input (set_filters w1 s1))))"
      by (simp add: run_script_def 1 Let_def split: prod.splits)
    then show ?thesis
      by (simp add: w1 chat_input_handler_filters set_filters_in_options)
  qed
qed

lemma after_run_in_options:
  "holds_options w \<Longrightarrow>
   holds_options (fst (after_run (run_script base api w clicked chat_input s)))
   \<and> filters_in_options (snd (after_run (run_script base api w clicked chat_input s)))"
  by (simp add: after_run_def run_script_in_options)

lemma holds_options_toggle: "holds_options (toggle_agent a enabled w) = holds_options w"
  by (cases a) (simp_all add: holds_options_def)

lemma holds_options_pick_year:
  "holds_options w \<Longrightarrow> y \<in> set year_options \<Longrightarrow> holds_options (w\<lparr>year_select := Some y\<rparr>)"
  by (simp add: holds_options_def)

lemma holds_options_pick_quarter:
  "holds_options w \<Longrightarrow> q \<in> set quarter_options \<Longrightarrow> holds_options (w\<lparr>quarter_select := Some q\<rparr>)"
  by (simp add: holds_options_def)

lemma on_event_in_options:
  assumes "holds_options (fst st)" and "filters_in_options (snd st)"
  shows "holds_options (fst (on_event base api ev st))
         \<and> filters_in_options (snd (on_event base api ev st))"
proof (cases st)
  case (Pair w s)
  with assms have w: "holds_options w" and s: "filters_in_options s" by simp_all
  show ?thesis
  proof (cases ev)
    case (Toggle a enabled)
    with Pair w show ?thesis
      by (simp add: holds_options_toggle after_run_in_options)
  next
    case (Pick_year y)
    with Pair w s show ?thesis
      by (simp add: holds_options_pick_year after_run_in_options)
  next
    case (Pick_quarter q)
    with Pair w s show ?thesis
      by (simp add: holds_options_pick_quarter after_run_in_options)
  next
    case Click_clear
    with Pair w show ?thesis
      by (simp add: after_run_in_options)
  next
    case (Submit prompt)
    with Pair w s show ?thesis
      by (simp add: after_run_in_options)
  qed
qed

lemma run_events_in_options:
  "holds_options (fst st) \<Longrightarrow> filters_in_options (snd st) \<Longrightarrow>
   holds_options (fst (run_events base api evs st))
   \<and> filters_in_options (snd (run_events base api evs st))"
proof (induction evs arbitrary: st)
  case Nil
  then show ?case by (simp add: run_events_def)
next
  case (Cons ev evs)
  from on_event_in_options [OF Cons.prems, of base api ev]
  have "holds_options (fst (on_event base api ev st))"
    and "filters_in_options (snd (on_event base api ev st))" by simp_all
  from Cons.IH [OF this] show ?case by (simp add: run_events_def)
qed

lemma first_load_in_options:
  "holds_options (fst (first_load base api)) \<and> filters_in_options (snd (first_load base api))"
proof -
  have "holds_options fresh_widgets"
    by (simp add: holds_options_def fresh_widgets_def)
  then show ?thesis
    by (simp add: first_load_def after_run_in_options)
qed

lemma reachable_filters_in_options:
  "filters_in_options (snd (run_events base api evs (first_load base api)))"
  using run_events_in_options first_load_in_options by blast

lemma filters_in_options_params:
  "filters_in_options s \<Longrightarrow>
   \<exists>y q. map_of spec_year_param (year s) = Some y \<and> map_of spec_quarter_param (quarter s) = Some q"
  by (auto simp: filters_in_options_def year_options_def quarter_options_def
      spec_year_param_def spec_quarter_param_def)

text \<open>
  C5: with a base URL configured and the year and the quarter among the options of
  their selectors, a submission posts exactly one request: a POST to the base URL
  followed by \<^verbatim>\<open>/chat\<close>, with the parameters \<^verbatim>\<open>message\<close> (the prompt),
  \<^verbatim>\<open>snowflake_agent\<close>, \<^verbatim>\<open>pinecone_agent\<close> (the retrieval flag), \<^verbatim>\<open>websearch_agent\<close>,
  \<^verbatim>\<open>year\<close> and \<^verbatim>\<open>quarter\<close> (the integer of the selection, or no value for the
  selection None), and a timeout of 120 seconds.
\<close>

theorem outbound_request_shape:
  assumes "map_of spec_year_param (year s) = Some y"
    and "map_of spec_quarter_param (quarter s) = Some q"
  shows "posted (snd (submit_query (Some base_url) api prompt s)) =
           [\<lparr>http_method = ''POST'',
             url = base_url @ ''/chat'',
             params =
               [(''message'', PStr prompt),
                (''snowflake_agent'', PBool (snowflake_agent s)),
                (''pinecone_agent'', PBool (rag_agent s)),
                (''websearch_agent'', PBool (web_search_agent s)),
                (''year'', y),
                (''quarter'', q)],
             timeout = 120\<rparr>]"
proof -
  have "chat_request (Some base_url) prompt s =
          Inr \<lparr>http_method = ''POST'',
               url = base_url @ ''/chat'',
               params =
                 [(''message'', PStr prompt),
                  (''snowflake_agent'', PBool (snowflake_agent s)),
                  (''pinecone_agent'', PBool (rag_agent s)),
                  (''websearch_agent'', PBool (web_search_agent s)),
                  (''year'', y),
                  (''quarter'', q)],
               timeout = 120\<rparr>"
    by (simp add: chat_request_def filter_param_year [OF assms(1)]
        filter_param_quarter [OF assms(2)])
  then show ?thesis
    by (simp add: submit_query_def try_body_def chat_request_messages on_ok_def on_status_def
        no_effects_def Let_def split: outcome.splits sum.splits)
qed

theorem outbound_request_shape_witness:
  "map_of spec_year_param (year session_2023_q2) = Some (PInt 2023)
   \<and> map_of spec_quarter_param (quarter session_2023_q2) = Some (PInt 2)
   \<and> posted (snd (submit_query (Some ''http://api.test'') api_500
                     ''What was the revenue of NVIDIA?'' session_2023_q2))
       = [request_2023_q2]"
proof -
  have y: "map_of spec_year_param (year session_2023_q2) = Some (PInt 2023)"
    by (simp add: spec_year_param_def session_2023_q2_def init_session_def)
  have q: "map_of spec_quarter_param (quarter session_2023_q2) = Some (PInt 2)"
    by (simp add: spec_quarter_param_def session_2023_q2_def init_session_def)
  from outbound_request_shape
         [OF y q, of "''http://api.test''" api_500 "''What was the revenue of NVIDIA?''"] y q
  show ?thesis
    by (simp add: request_2023_q2_def session_2023_q2_def init_session_def)
qed

section \<open>The year and quarter selectors\<close>

text \<open>While the front end holds no value for the quarter selector, the quarter is None.\<close>

lemma set_filters_quarter_unset:
  "quarter_select w = None \<Longrightarrow> quarter (set_filters w s) = ''None''"
  by (simp add: set_filters_def selectbox_def quarter_options_def Let_def)

text \<open>
  C6 does not hold of the script. On the page as first loaded the user picks quarter 2
  and then the year None: the run that follows leaves the year at None and the quarter
  at 2, since the disabled selector still returns the value it holds. A submission
  made then, with the retrieval agent switched on, posts a request without a year and
  with quarter 2.
\<close>

theorem quarter_kept_when_year_none:
  "year (snd (run_events None api_chart [Pick_quarter ''2'', Pick_year ''None'']
                (first_load None api_chart))) = ''None''
   \<and> quarter (snd (run_events None api_chart [Pick_quarter ''2'', Pick_year ''None'']
                   (first_load None api_chart))) = ''2''
   \<and> map (\<lambda>req. (map_of (params req) ''year'', map_of (params req) ''quarter''))
        (posted (fst (snd (snd (run_script None api_chart
           (fst (run_events None api_chart
                   [Pick_quarter ''2'', Pick_year ''None'', Toggle Rag True]
                   (first_load None api_chart)))
           False (Some ''hello'')
           (snd (run_events None api_chart
                   [Pick_quarter ''2'', Pick_year ''None'', Toggle Rag True]
                   (first_load None api_chart))))))))
       = [(Some PNone, Some (PInt 2))]"
  by code_simp

section \<open>Round trip of the download link\<close>

lemma unat_of_char: "unat (of_char c :: byte) = of_char c"
proof -
  have "(of_char c :: byte) = of_nat (of_char c)"
    by (simp only: of_nat_of_char)
  then have "unat (of_char c :: byte) = (of_char c :: nat) mod 256"
    by (simp only: unat_of_nat) simp
  then show ?thesis by simp
qed

lemma char_of_unat_of_char: "char_of (unat (of_char c :: byte)) = c"
  by (simp only: unat_of_char char_of_char)

lemma of_char_char_of_unat: "(of_char (char_of (unat b)) :: byte) = b"
proof -
  have "(of_char (char_of (unat b)) :: byte) = of_nat (of_char (char_of (unat b)))"
    by (simp only: of_nat_of_char)
  also have "\<dots> = of_nat (unat b mod 256)"
    by (simp only: of_char_of)
  also have "unat b mod 256 = unat b"
    using unsigned_less [of b, where ?'a = nat] by simp
  finally show ?thesis by simp
qed

lemma decode_bytes_of: "decode (bytes_of s) = s"
  by (simp add: decode_def bytes_of_def comp_def char_of_unat_of_char)

lemma bytes_of_decode: "bytes_of (decode bs) = bs"
  by (simp add: decode_def bytes_of_def comp_def of_char_char_of_unat)

lemma encode_Inr: "encode s = Inr bs \<Longrightarrow> bs = bytes_of s"
  by (auto simp: encode_def split: option.splits)

text \<open>The masks of the encoder as truncations, and equality of bytes bit by bit.\<close>

lemma masks:
  fixes x :: byte
  shows "x AND 3 = take_bit 2 x" "x AND 15 = take_bit 4 x" "x AND 63 = take_bit 6 x"
  by (simp_all add: take_bit_eq_mask mask_eq_exp_minus_1)

lemma byte_high: "8 \<le> n \<Longrightarrow> bit (b :: byte) n = False"
  using bit_imp_le_length [of b n] by auto

lemma byte_eqI:
  fixes a b :: byte
  assumes "bit a 0 = bit b 0" "bit a 1 = bit b 1" "bit a 2 = bit b 2" "bit a 3 = bit b 3"
    "bit a 4 = bit b 4" "bit a 5 = bit b 5" "bit a 6 = bit b 6" "bit a 7 = bit b 7"
  shows "a = b"
proof (rule bit_word_eqI)
  fix n assume "n < LENGTH(8)"
  then consider "n = 0" | "n = 1" | "n = 2" | "n = 3" | "n = 4" | "n = 5" | "n = 6" | "n = 7"
    by fastforce
  then show "bit a n = bit b n"
    using assms by cases simp_all
qed

text \<open>The sextets of a group put back together give the bytes of the group.\<close>

lemma sextets_only_byte:
  fixes a :: byte
  shows "push_bit 2 (drop_bit 2 a AND 63) OR drop_bit 4 (push_bit 4 (a AND 3) AND 63) = a"
  by (rule byte_eqI) (simp_all add: masks bit_simps byte_high)

lemma sextets_first_byte:
  fixes a b :: byte
  shows "push_bit 2 (drop_bit 2 a AND 63)
           OR drop_bit 4 ((push_bit 4 (a AND 3) OR drop_bit 4 b) AND 63) = a"
  by (rule byte_eqI) (simp_all add: masks bit_simps byte_high)

lemma sextets_second_byte:
  fixes a b c :: byte
  shows "push_bit 4 ((push_bit 4 (a AND 3) OR drop_bit 4 b) AND 63)
           OR drop_bit 2 ((push_bit 2 (b AND 15) OR drop_bit 6 c) AND 63) = b"
  by (rule byte_eqI) (simp_all add: masks bit_simps byte_high)

lemma sextets_second_byte_last:
  fixes a b :: byte
  shows "push_bit 4 ((push_bit 4 (a AND 3) OR drop_bit 4 b) AND 63)
           OR drop_bit 2 (push_bit 2 (b AND 15) AND 63) = b"
  by (rule byte_eqI) (simp_all add: masks bit_simps byte_high)

lemma sextets_third_byte:
  fixes b c :: byte
  shows "push_bit 6 ((push_bit 2 (b AND 15) OR drop_bit 6 c) AND 63) OR ((c AND 63) AND 63) = c"
  by (rule byte_eqI) (simp_all add: masks bit_simps byte_high)

text \<open>The alphabet: every character is found again at its own index, and none is the pad.\<close>

lemma index_of_nth: "distinct xs \<Longrightarrow> i < length xs \<Longrightarrow> index_of xs (xs ! i) = Some i"
proof (induction xs arbitrary: i)
  case Nil
  then show ?case by simp
next
  case (Cons x xs)
  then show ?case by (cases i) auto
qed

lemma distinct_b64_alphabet: "distinct b64_alphabet"
  by (simp add: b64_alphabet_def)

lemma length_b64_alphabet: "length b64_alphabet = 64"
  by (simp add: b64_alphabet_def)

lemma unat_and_63: "unat ((n :: byte) AND 63) < 64"
proof -
  have "unat (n AND 63) \<le> unat (63 :: byte)"
    by (rule word_and_le1 [THEN word_le_nat_alt [THEN iffD1]])
  then show ?thesis by simp
qed

lemma b64_value_char: "b64_value (b64_char n) = Some (n AND 63)"
  by (simp add: b64_value_def b64_char_def char_of_unat_of_char index_of_nth
      distinct_b64_alphabet length_b64_alphabet unat_and_63)

lemma b64_char_in_alphabet: "char_of (unat (b64_char n)) \<in> set b64_alphabet"
  by (simp add: b64_char_def char_of_unat_of_char length_b64_alphabet unat_and_63)

lemma char_of_unat_pad: "char_of (unat b64_pad) = CHR ''=''"
  by (simp only: b64_pad_def char_of_unat_of_char)

lemma b64_char_not_pad: "b64_char n \<noteq> b64_pad"
proof
  assume "b64_char n = b64_pad"
  then have "char_of (unat (b64_char n)) = char_of (unat b64_pad)" by simp
  then have "char_of (unat (b64_char n)) = CHR ''=''"
    by (simp only: char_of_unat_pad)
  then have "CHR ''='' \<in> set b64_alphabet"
    using b64_char_in_alphabet [of n] by simp
  then show False by (simp add: b64_alphabet_def)
qed

text \<open>Decoding one group written by the encoder, then a whole encoding.\<close>

lemma b64decode_group1:
  "b64decode [b64_char x0, b64_char x1, b64_pad, b64_pad]
     = Some [push_bit 2 (x0 AND 63) OR drop_bit 4 (x1 AND 63)]"
  by (simp only: b64decode.simps b64_value_char prod.case option.case simp_thms if_True)

lemma b64decode_group2:
  "b64decode [b64_char x0, b64_char x1, b64_char x2, b64_pad]
     = Some [push_bit 2 (x0 AND 63) OR drop_bit 4 (x1 AND 63),
             push_bit 4 (x1 AND 63) OR drop_bit 2 (x2 AND 63)]"
  by (simp only: b64decode.simps b64_value_char b64_char_not_pad prod.case option.case
      simp_thms if_True if_False)

lemma b64decode_group3:
  "b64decode (b64_char x0 # b64_char x1 # b64_char x2 # b64_char x3 # cs)
     = (case b64decode cs of
          None \<Rightarrow> None
        | Some bs \<Rightarrow>
            Some ([push_bit 2 (x0 AND 63) OR drop_bit 4 (x1 AND 63),
                   push_bit 4 (x1 AND 63) OR drop_bit 2 (x2 AND 63),
                   push_bit 6 (x2 AND 63) OR (x3 AND 63)] @ bs))"
  by (simp only: b64decode.simps b64_value_char b64_char_not_pad prod.case option.case
      simp_thms if_False split: option.split)

lemma b64decode_b64encode: "b64decode (b64encode bs) = Some bs"
proof (induction bs rule: b64encode.induct)
  case 1
  show ?case by simp
next
  case (2 a)
  show ?case
    by (simp only: b64encode.simps b64decode_group1 sextets_only_byte)
next
  case (3 a b)
  show ?case
    by (simp only: b64encode.simps b64decode_group2 sextets_first_byte sextets_second_byte_last)
next
  case (4 a b c rest)
  have "b64decode (b64encode (a # b # c # rest)) =
          (case b64decode (b64encode rest) of
             None \<Rightarrow> None
           | Some bs \<Rightarrow> Some ([a, b, c] @ bs))"
    by (simp only: b64encode.simps append.simps b64decode_group3 sextets_first_byte
        sextets_second_byte sextets_third_byte)
  with 4 show ?case by simp
qed

text \<open>The encoding holds no quote, so the payload of the link ends where the encoding ends.\<close>

lemma b64encode_chars:
  "c \<in> set (decode (b64encode bs)) \<Longrightarrow> c \<in> set b64_alphabet \<or> c = CHR ''=''"
proof (induction bs arbitrary: c rule: b64encode.induct)
  case 1
  then show ?case by (simp add: decode_def)
next
  case (2 a)
  then show ?case
    by (auto simp: decode_def b64_char_in_alphabet char_of_unat_pad)
next
  case (3 a b)
  then show ?case
    by (auto simp: decode_def b64_char_in_alphabet char_of_unat_pad)
next
  case (4 a b c rest)
  then show ?case
    by (auto simp: decode_def b64_char_in_alphabet)
qed

lemma quote_not_b64: "CHR 0x22 \<notin> set (decode (b64encode bs))"
proof
  assume "CHR 0x22 \<in> set (decode (b64encode bs))"
  then have "CHR 0x22 \<in> set b64_alphabet \<or> CHR 0x22 = CHR ''=''"
    by (rule b64encode_chars)
  then show False by (simp add: b64_alphabet_def)
qed

lemma takeWhile_until:
  "x \<notin> set xs \<Longrightarrow> takeWhile (\<lambda>c. c \<noteq> x) (xs @ x # rest) = xs"
  by (induction xs) auto

lemma href_payload_link:
  assumes "get_download_link file_content file_name = Inr href"
  shows "href_payload href = decode (b64encode (bytes_of file_content))"
proof -
  from assms obtain bs where bs: "encode file_content = Inr bs"
    by (auto simp: get_download_link_def split: sum.splits)
  have "href = ''<a href=\"data:file/markdown;base64,'' @ decode (b64encode bs)
                 @ ''\" download=\"'' @ file_name @ ''\">Download '' @ file_name @ ''</a>''"
    using assms bs by (simp add: get_download_link_def Let_def)
  then show ?thesis
    using encode_Inr [OF bs]
    by (simp add: href_payload_def takeWhile_until quote_not_b64)
qed

text \<open>
  C7, as stated, fails: a report that is a lone surrogate is stored as the last report
  by a response with status 200, and \<^verbatim>\<open>get_download_link\<close> raises on it, so there is
  no payload to decode; the sidebar of that run raises the same exception.
\<close>

theorem download_link_counterexample:
  "research_document (fst (submit_query (Some ''http://api.test'') api_surrogate
                             ''What was the revenue of NVIDIA?'' session_2023_q2))
     = JStr lone_surrogate
   \<and> get_download_link lone_surrogate ''Research_Document.md''
       = Inl lone_surrogate_error
   \<and> sidebar_download (fst (submit_query (Some ''http://api.test'') api_surrogate
                               ''What was the revenue of NVIDIA?'' session_2023_q2))
       = Inl lone_surrogate_error"
  by code_simp

text \<open>
  C7, amended: for every report text that \<^verbatim>\<open>encode()\<close> accepts, that is every text
  without a lone surrogate, \<^verbatim>\<open>get_download_link\<close> returns a hyperlink, and the payload
  of that hyperlink, decoded from base64 and read back as text, is the report text
  itself, byte for byte.
\<close>

theorem download_link_round_trip:
  assumes "encode file_content = Inr bytes"
  shows "\<exists>href. get_download_link file_content file_name = Inr href
           \<and> map_option decode (b64decode (bytes_of (href_payload href))) = Some file_content"
proof -
  obtain href where href: "get_download_link file_content file_name = Inr href"
    using assms by (simp add: get_download_link_def)
  have "map_option decode (b64decode (bytes_of (href_payload href))) = Some file_content"
    by (simp add: href_payload_link [OF href] bytes_of_decode b64decode_b64encode decode_bytes_of)
  with href show ?thesis by blast
qed

theorem download_link_round_trip_witness:
  "encode ''# Revenue'' = Inr (bytes_of ''# Revenue'')
   \<and> get_download_link ''# Revenue'' ''Research_Document.md''
       = Inr ''<a href=\"data:file/markdown;base64,IyBSZXZlbnVl\" download=\"Research_Document.md\">Download Research_Document.md</a>''
   \<and> map_option decode (b64decode (bytes_of ''IyBSZXZlbnVl'')) = Some ''# Revenue''"
proof -
  have e: "encode ''# Revenue'' = Inr (bytes_of ''# Revenue'')"
    by (simp add: encode_def is_continuation_def)
  have l: "get_download_link ''# Revenue'' ''Research_Document.md''
       = Inr ''<a href=\"data:file/markdown;base64,IyBSZXZlbnVl\" download=\"Research_Document.md\">Download Research_Document.md</a>''"
    by code_simp
  have p: "href_payload ''<a href=\"data:file/markdown;base64,IyBSZXZlbnVl\" download=\"Research_Document.md\">Download Research_Document.md</a>''
             = ''IyBSZXZlbnVl''"
    by code_simp
  from download_link_round_trip [OF e, of "''Research_Document.md''"] e l p
  show ?thesis by simp
qed

section \<open>Clearing the conversation\<close>

text \<open>
  C8: whatever the session held, after the Clear Conversation action the message
  sequence is empty and there is no last report, and clearing a second time changes
  nothing.
\<close>

theorem clear_session_empty_idempotent:
  "messages (clear_session s) = []
   \<and> research_document (clear_session s) = JNull
   \<and> clear_session (clear_session s) = clear_session s"
  by (simp add: clear_session_def)

section \<open>A response without a report, and a body that is not JSON\<close>

text \<open>
  C9: when the API answers with status 200 and a JSON object that has no report, the
  empty string is stored as the last report, the assistant message appended is markdown
  with empty content, and the sidebar shows no download link for the latest report.
\<close>

theorem missing_report_stores_empty:
  assumes "chat_request base prompt s = Inr req"
    and "api req = Returned r"
    and "status_code r = 200"
    and "body_json r = Inr (JDict kvs)"
    and "map_of kvs ''report'' = None"
  shows "research_document (fst (submit_query base api prompt s)) = JStr []
         \<and> messages (fst (submit_query base api prompt s)) =
             messages s @
               [\<lparr>role = ''user'', content = prompt, is_markdown = None, visualization = None\<rparr>,
                \<lparr>role = ''assistant'', content = [],
                 is_markdown = Some True, visualization = None\<rparr>]
         \<and> sidebar_download (fst (submit_query base api prompt s)) = Inr None"
  using assms
  by (simp add: submit_query_def try_body_def chat_request_messages on_ok_def no_effects_def
      Let_def sidebar_download_def get_download_link_def encode_empty)

theorem missing_report_stores_empty_witness:
  "chat_request (Some ''http://api.test'') ''What was the revenue of NVIDIA?'' session_2023_q2
     = Inr request_2023_q2
   \<and> api_no_report request_2023_q2 = Returned response_no_report
   \<and> status_code response_no_report = 200
   \<and> body_json response_no_report = Inr (JDict [(''detail'', JStr ''done'')])
   \<and> map_of [(''detail'', JStr ''done'')] ''report'' = None
   \<and> research_document (fst (submit_query (Some ''http://api.test'') api_no_report
                                ''What was the revenue of NVIDIA?'' session_2023_q2)) = JStr []
   \<and> sidebar_download (fst (submit_query (Some ''http://api.test'') api_no_report
                               ''What was the revenue of NVIDIA?'' session_2023_q2)) = Inr None"
proof -
  have 2: "api_no_report request_2023_q2 = Returned response_no_report"
    by (simp add: api_no_report_def)
  have 3: "status_code response_no_report = 200"
    by (simp add: response_no_report_def)
  have 4: "body_json response_no_report = Inr (JDict [(''detail'', JStr ''done'')])"
    by (simp add: response_no_report_def)
  have 5: "map_of [(''detail'', JStr ''done'')] ''report'' = None"
    by simp
  from missing_report_stores_empty
         [where kvs = "[(''detail'', JStr ''done'')]" and r = response_no_report
            and req = request_2023_q2 and api = api_no_report and s = session_2023_q2,
          OF chat_request_2023_q2 2 3 4 5]
       chat_request_2023_q2 2 3 4 5
  show ?thesis by simp
qed

text \<open>
  C10: when the API answers with status 200 and reading the body as JSON raises, the
  exception is caught by the handler of transport failures: the assistant message
  appended is not markdown and reads \<^verbatim>\<open>Error: Unable to connect to the research API.\<close>
  followed by the exception's text, the last report is unchanged, and the whole outcome
  equals that of a call that raised the same exception.
\<close>

theorem invalid_json_reported_as_connection_error:
  assumes "chat_request base prompt s = Inr req"
    and "api req = Returned r"
    and "status_code r = 200"
    and "body_json r = Inl e"
  shows "messages (fst (submit_query base api prompt s)) =
           messages s @
             [\<lparr>role = ''user'', content = prompt, is_markdown = None, visualization = None\<rparr>,
              \<lparr>role = ''assistant'',
               content = ''Error: Unable to connect to the research API. '' @ e,
               is_markdown = Some False, visualization = None\<rparr>]
         \<and> research_document (fst (submit_query base api prompt s)) = research_document s
         \<and> submit_query base api prompt s = submit_query base (\<lambda>req. Raised e) prompt s"
  using assms
  by (simp add: submit_query_def try_body_def chat_request_messages on_ok_def no_effects_def Let_def)

theorem invalid_json_reported_as_connection_error_witness:
  "chat_request (Some ''http://api.test'') ''What was the revenue of NVIDIA?'' session_2023_q2
     = Inr request_2023_q2
   \<and> api_not_json request_2023_q2 = Returned response_not_json
   \<and> status_code response_not_json = 200
   \<and> body_json response_not_json = Inl ''Expecting value: line 1 column 1 (char 0)''
   \<and> map (\<lambda>m. (role m, content m, is_markdown m))
        (messages (fst (submit_query (Some ''http://api.test'') api_not_json
                          ''What was the revenue of NVIDIA?'' session_2023_q2)))
       = [(''user'', ''What was the revenue of NVIDIA?'', None),
          (''assistant'',
           ''Error: Unable to connect to the research API. Expecting value: line 1 column 1 (char 0)'',
           Some False)]
   \<and> research_document (fst (submit_query (Some ''http://api.test'') api_not_json
                                ''What was the revenue of NVIDIA?'' session_2023_q2)) = JNull"
proof -
  have 2: "api_not_json request_2023_q2 = Returned response_not_json"
    by (simp add: api_not_json_def)
  have 3: "status_code response_not_json = 200"
    by (simp add: response_not_json_def)
  have 4: "body_json response_not_json = Inl ''Expecting value: line 1 column 1 (char 0)''"
    by (simp add: response_not_json_def)
  note t = invalid_json_reported_as_connection_error
             [where r = response_not_json and req = request_2023_q2 and api = api_not_json
                and s = session_2023_q2, OF chat_request_2023_q2 2 3 4]
  from t [THEN conjunct1] t [THEN conjunct2, THEN conjunct1]
       chat_request_2023_q2 2 3 4 session_2023_q2_fields
  show ?thesis by simp
qed

end
